theory Spec2Isabelle
  imports Main
begin

section \<open>Data model\<close>

text \<open>
  The resource \<^verbatim>\<open>nexus_security_user_role\<close> (package \<^verbatim>\<open>security\<close>) manages the roles of
  a user that lives in a remote Nexus instance. Its hooks talk to two collaborators: the
  API client (\<^verbatim>\<open>client.Security.User.Get\<close> and \<^verbatim>\<open>Update\<close>) and the framework's
  \<^verbatim>\<open>schema.ResourceData\<close>. Both are modelled as explicit state that every hook takes and
  returns.
\<close>

text \<open>Go's \<^verbatim>\<open>error\<close> values handed out by the client are opaque to the hooks.\<close>

datatype error = StoreError string

text \<open>The struct \<^verbatim>\<open>security.User\<close>, with the fields the hooks read and write.\<close>

record user =
  UserID :: string
  FirstName :: string
  LastName :: string
  EmailAddress :: string
  Password :: string
  Status :: string
  Source :: string
  Roles :: "string list"

text \<open>
  \<^verbatim>\<open>schema.ResourceData\<close>: the id (\<^verbatim>\<open>d.Id()\<close>, \<^verbatim>\<open>d.SetId\<close>) and one field per schema
  attribute (\<^verbatim>\<open>d.Get\<close>, \<^verbatim>\<open>d.Set\<close>). The attribute \<^verbatim>\<open>roles\<close> has type
  \<^verbatim>\<open>schema.TypeSet\<close>: what is stored has no duplicates, so \<^verbatim>\<open>d.Set("roles", xs)\<close> stores
  \<open>remdups xs\<close> and \<^verbatim>\<open>d.Get("roles").(*schema.Set).List()\<close> returns the stored list. The
  order in which the framework lists a set is fixed by a hash of the members and is not
  modelled; the properties below speak of membership only.

  \<^verbatim>\<open>d.HasChange("roles")\<close> compares the prior state with the planned value; both are fixed
  when the hook starts, so the answer is the field \<open>roles_changed\<close>, which no hook writes.
\<close>

record resource_data =
  rid :: string
  userid :: string
  firstname :: string
  lastname :: string
  email :: string
  password :: string
  status :: string
  source :: string
  roles :: "string list"
  roles_changed :: bool

text \<open>
  The remote store behind the client. \<open>users\<close> maps a user id to the stored user.
  \<open>faults\<close> scripts the transport: each call of the client takes the head of the list,
  and \<open>Some e\<close> makes that call fail with \<open>e\<close> and leave the users untouched (an empty
  script means that every further call succeeds). \<open>calls\<close> records every call of the
  client in order, together with the error it returned.
\<close>

datatype call =
  GetCall string "error option"
| UpdateCall string user "error option"

record store =
  users :: "(string \<times> user) list"
  faults :: "error option list"
  calls :: "call list"

fun call_error :: "call \<Rightarrow> error option" where
  "call_error (GetCall k e) = e"
| "call_error (UpdateCall k u e) = e"

definition next_fault :: "store \<Rightarrow> error option \<times> store" where
  "next_fault s =
     (case faults s of
        [] \<Rightarrow> (None, s)
      | f # fs \<Rightarrow> (f, s\<lparr>faults := fs\<rparr>))"

fun replace_user :: "string \<Rightarrow> user \<Rightarrow> (string \<times> user) list \<Rightarrow> (string \<times> user) list" where
  "replace_user k u [] = [(k, u)]"
| "replace_user k u ((k', u') # rest) =
     (if k' = k then (k, u) # rest else (k', u') # replace_user k u rest)"

text \<open>
  \<^verbatim>\<open>client.Security.User.Get(id)\<close> returns a pointer and an error: \<open>(None, None)\<close> is the
  not-found answer (nil user, nil error).
\<close>

definition client_get :: "string \<Rightarrow> store \<Rightarrow> (user option \<times> error option) \<times> store" where
  "client_get k s =
     (case next_fault s of
        (Some e, s1) \<Rightarrow> ((None, Some e), s1\<lparr>calls := calls s1 @ [GetCall k (Some e)]\<rparr>)
      | (None, s1) \<Rightarrow>
          ((map_of (users s1) k, None), s1\<lparr>calls := calls s1 @ [GetCall k None]\<rparr>))"

text \<open>
  \<^verbatim>\<open>client.Security.User.Update(id, user)\<close> replaces the whole stored user (there is no
  partial update). A store that rejects the write is a scripted fault.
\<close>

definition client_update :: "string \<Rightarrow> user \<Rightarrow> store \<Rightarrow> error option \<times> store" where
  "client_update k u s =
     (case next_fault s of
        (Some e, s1) \<Rightarrow> (Some e, s1\<lparr>calls := calls s1 @ [UpdateCall k u (Some e)]\<rparr>)
      | (None, s1) \<Rightarrow>
          (None, s1\<lparr>users := replace_user k u (users s1),
                     calls := calls s1 @ [UpdateCall k u None]\<rparr>))"

text \<open>A Go function either returns or panics (here: a nil pointer dereference).\<close>

datatype 'a outcome = Panic | Return 'a

section \<open>The hooks\<close>

definition getSecurityUserRoleFromResourceData :: "resource_data \<Rightarrow> user" where
  "getSecurityUserRoleFromResourceData d =
     \<lparr> UserID = userid d,
       FirstName = firstname d,
       LastName = lastname d,
       EmailAddress = email d,
       Password = password d,
       Status = status d,
       Source = source d,
       Roles = roles d \<rparr>"

text \<open>\<^verbatim>\<open>d.Set\<close> of the seven attributes, in the order of lines 116 to 122.\<close>

definition set_from_user :: "user \<Rightarrow> resource_data \<Rightarrow> resource_data" where
  "set_from_user u d =
     d\<lparr> email := EmailAddress u,
        firstname := FirstName u,
        lastname := LastName u,
        roles := remdups (Roles u),
        status := Status u,
        userid := UserID u,
        source := Source u \<rparr>"

definition resourceSecurityUserRoleRead ::
  "resource_data \<Rightarrow> store \<Rightarrow> error option \<times> resource_data \<times> store" where
  "resourceSecurityUserRoleRead d m =
     (case client_get (rid d) m of
        ((usr, err), m1) \<Rightarrow>
          if err \<noteq> None then (err, d, m1)
          else (case usr of
                  None \<Rightarrow> (None, d\<lparr>rid := ''''\<rparr>, m1)
                | Some u \<Rightarrow> (None, set_from_user u d, m1)))"

text \<open>
  Modelled from the spec: \<^verbatim>\<open>resourceSecurityUserRead\<close>, the read hook of the sibling
  resource \<^verbatim>\<open>nexus_security_user\<close>, is called at the end of the create hook; its
  source is missing. The spec gives every read the same contract: fetch the
  entity under the id; a failure is handed on; not-found clears the id without an error;
  otherwise the local attributes are refreshed from the remote entity.
\<close>

definition resourceSecurityUserRead ::
  "resource_data \<Rightarrow> store \<Rightarrow> error option \<times> resource_data \<times> store" where
  "resourceSecurityUserRead d m =
     (case client_get (rid d) m of
        ((usr, err), m1) \<Rightarrow>
          if err \<noteq> None then (err, d, m1)
          else (case usr of
                  None \<Rightarrow> (None, d\<lparr>rid := ''''\<rparr>, m1)
                | Some u \<Rightarrow> (None, set_from_user u d, m1)))"

definition resourceSecurityUserRoleCreate ::
  "resource_data \<Rightarrow> store \<Rightarrow> error option \<times> resource_data \<times> store" where
  "resourceSecurityUserRoleCreate d m =
     (let d0 = d\<lparr>rid := userid d\<rparr> in
      case resourceSecurityUserRoleRead d0 m of
        (err, d1, m1) \<Rightarrow>
          if err \<noteq> None then (err, d1, m1)
          else
            (let usr = getSecurityUserRoleFromResourceData d1 in
             case client_update (rid d1) usr m1 of
               (err2, m2) \<Rightarrow>
                 if err2 \<noteq> None then (err2, d1, m2)
                 else resourceSecurityUserRead (d1\<lparr>rid := UserID usr\<rparr>) m2))"

definition resourceSecurityUserRoleUpdate ::
  "resource_data \<Rightarrow> store \<Rightarrow> error option \<times> resource_data \<times> store" where
  "resourceSecurityUserRoleUpdate d m =
     (if roles_changed d then
        (let usr = getSecurityUserRoleFromResourceData d in
         case client_update (rid d) usr m of
           (err, m1) \<Rightarrow>
             if err \<noteq> None then (err, d, m1)
             else resourceSecurityUserRoleRead d m1)
      else resourceSecurityUserRoleRead d m)"

subsection \<open>The set difference of the delete hook\<close>

text \<open>
  Lines 174 to 183: the map \<^verbatim>\<open>mb\<close> is filled with the roles of the local state, then the
  remote roles are walked in order and every role not found in \<^verbatim>\<open>mb\<close> is appended to
  \<^verbatim>\<open>roles\<close>.
\<close>

fun fill_map :: "string list \<Rightarrow> (string \<rightharpoonup> unit) \<Rightarrow> (string \<rightharpoonup> unit)" where
  "fill_map [] mb = mb"
| "fill_map (role # rest) mb = fill_map rest (mb(role \<mapsto> ()))"

fun collect_missing :: "(string \<rightharpoonup> unit) \<Rightarrow> string list \<Rightarrow> string list \<Rightarrow> string list" where
  "collect_missing mb [] acc = acc"
| "collect_missing mb (role # rest) acc =
     collect_missing mb rest (if mb role = None then acc @ [role] else acc)"

definition computeRemainderAfterRemoval :: "string list \<Rightarrow> string list \<Rightarrow> string list" where
  "computeRemainderAfterRemoval desired remote =
     collect_missing (fill_map desired Map.empty) remote []"

definition resourceSecurityUserRoleDelete ::
  "resource_data \<Rightarrow> store \<Rightarrow> (error option \<times> resource_data \<times> store) outcome" where
  "resourceSecurityUserRoleDelete d m =
     (case client_get (rid d) m of
        ((apiUser, err), m1) \<Rightarrow>
          if err \<noteq> None then Return (err, d, m1)
          else
            (let stateUser = getSecurityUserRoleFromResourceData d in
             case apiUser of
               None \<Rightarrow> Panic
             | Some au \<Rightarrow>
                 (let remaining = computeRemainderAfterRemoval (Roles stateUser) (Roles au);
                      d1 = d\<lparr>roles := remdups remaining\<rparr>
                  in case resourceSecurityUserRoleUpdate d1 m1 of
                       (err2, d2, m2) \<Rightarrow>
                         if err2 \<noteq> None then Return (err2, d2, m2)
                         else Return (None, d2\<lparr>rid := ''''\<rparr>, m2))))"

subsection \<open>The existence check\<close>

text \<open>
  Lines 210 to 224: the lengths are compared first; only when they agree is the map
  \<^verbatim>\<open>exists\<close> filled and every remote role looked up in it, stopping at the first miss.
  In the hook, the test of line 204 leaves only a user that is there; the \<open>None\<close> case
  after it is never reached.
\<close>

fun all_found :: "(string \<rightharpoonup> unit) \<Rightarrow> string list \<Rightarrow> bool" where
  "all_found ex [] = True"
| "all_found ex (role # rest) = (if ex role = None then False else all_found ex rest)"

definition computeExistence :: "string list \<Rightarrow> string list \<Rightarrow> bool" where
  "computeExistence desired remote =
     (if length remote \<noteq> length desired then False
      else all_found (fill_map desired Map.empty) remote)"

definition resourceSecurityUserRoleExists ::
  "resource_data \<Rightarrow> store \<Rightarrow> (bool \<times> error option) \<times> store" where
  "resourceSecurityUserRoleExists d m =
     (case client_get (rid d) m of
        ((apiUser, err), m1) \<Rightarrow>
          if apiUser = None \<or> err \<noteq> None then ((False, err), m1)
          else
            (let stateUser = getSecurityUserRoleFromResourceData d in
             case apiUser of
               Some au \<Rightarrow> ((computeExistence (Roles stateUser) (Roles au), err), m1)
             | None \<Rightarrow> ((False, err), m1)))"

section \<open>Concrete inputs\<close>

text \<open>
  A user \<^verbatim>\<open>jane\<close> with the roles \<^verbatim>\<open>admin\<close> and \<^verbatim>\<open>dev\<close>, resource data for her with
  a given desired subset, and stores with and without her, each with a given script of
  faults. The closed theorems below run the hooks on them.
\<close>

definition jane :: user where
  "jane = \<lparr> UserID = ''jane'', FirstName = ''Jane'', LastName = ''Doe'',
            EmailAddress = ''jane@example.org'', Password = '''', Status = ''active'',
            Source = ''default'', Roles = [''admin'', ''dev''] \<rparr>"

definition jane_data :: "string list \<Rightarrow> bool \<Rightarrow> resource_data" where
  "jane_data rs ch =
     \<lparr> rid = ''jane'', userid = ''jane'', firstname = ''Jane'', lastname = ''Doe'',
       email = ''jane@example.org'', password = '''', status = ''active'',
       source = ''default'', roles = rs, roles_changed = ch \<rparr>"

definition jane_store :: "error option list \<Rightarrow> store" where
  "jane_store fs = \<lparr> users = [(''jane'', jane)], faults = fs, calls = [] \<rparr>"

definition empty_store :: "error option list \<Rightarrow> store" where
  "empty_store fs = \<lparr> users = [], faults = fs, calls = [] \<rparr>"

lemmas example_defs = jane_def jane_data_def jane_store_def empty_store_def

lemmas hook_defs = client_get_def client_update_def next_fault_def
  getSecurityUserRoleFromResourceData_def set_from_user_def
  resourceSecurityUserRoleRead_def resourceSecurityUserRead_def
  resourceSecurityUserRoleCreate_def resourceSecurityUserRoleUpdate_def
  resourceSecurityUserRoleDelete_def resourceSecurityUserRoleExists_def

section \<open>Facts about the loops\<close>

lemma fill_map_lookup:
  "fill_map xs mb r = (if r \<in> set xs then Some () else mb r)"
  by (induction xs arbitrary: mb) auto

lemma collect_missing_filter:
  "collect_missing mb xs acc = acc @ filter (\<lambda>r. mb r = None) xs"
  by (induction xs arbitrary: acc) auto

lemma computeRemainderAfterRemoval_filter:
  "computeRemainderAfterRemoval desired remote = filter (\<lambda>r. r \<notin> set desired) remote"
  by (simp add: computeRemainderAfterRemoval_def collect_missing_filter fill_map_lookup)

lemma all_found_subset:
  "all_found ex xs = (\<forall>r \<in> set xs. ex r \<noteq> None)"
  by (induction xs) auto

lemma computeExistence_char:
  "computeExistence desired remote =
     (length remote = length desired \<and> set remote \<subseteq> set desired)"
  by (auto simp add: computeExistence_def all_found_subset fill_map_lookup)

lemma distinct_same_length_subset:
  assumes "distinct xs" and "length xs = length ys" and "set xs \<subseteq> set ys"
  shows "set xs = set ys \<and> distinct ys"
proof -
  have "card (set xs) = length xs" using assms(1) by (simp add: distinct_card)
  moreover have "card (set ys) \<le> length ys" by (rule card_length)
  moreover have "card (set xs) \<le> card (set ys)" using assms(3) by (simp add: card_mono)
  ultimately have c: "card (set ys) = length ys" "card (set xs) = card (set ys)"
    using assms(2) by simp_all
  from c(2) assms(3) have "set xs = set ys" by (simp add: card_subset_eq)
  moreover from c(1) have "distinct ys" by (simp add: card_distinct)
  ultimately show ?thesis by simp
qed

text \<open>
  On lists without duplicates, which is how a set of roles arrives in a Go slice, the
  check is set equality.
\<close>

lemma computeExistence_distinct:
  assumes "distinct desired" and "distinct remote"
  shows "computeExistence desired remote
           = (set remote = set desired \<and> length remote = length desired)"
proof
  assume "computeExistence desired remote"
  then have "length remote = length desired" "set remote \<subseteq> set desired"
    by (simp_all add: computeExistence_char)
  with assms(2) show "set remote = set desired \<and> length remote = length desired"
    using distinct_same_length_subset by blast
next
  assume "set remote = set desired \<and> length remote = length desired"
  then show "computeExistence desired remote" by (simp add: computeExistence_char)
qed

section \<open>Facts about the client and the hooks\<close>

text \<open>What a call of the client returns and what it leaves in the store.\<close>

lemma next_fault_fields:
  "users (snd (next_fault s)) = users s"
  "calls (snd (next_fault s)) = calls s"
  "faults (snd (next_fault s)) = tl (faults s)"
  by (simp_all add: next_fault_def split: list.splits)

lemma client_get_error: "snd (fst (client_get k s)) = fst (next_fault s)"
  by (simp add: client_get_def split: prod.splits option.splits)

lemma client_get_user:
  "fst (fst (client_get k s)) = (if fst (next_fault s) = None then map_of (users s) k else None)"
  using next_fault_fields(1) [of s]
  by (auto simp add: client_get_def split: prod.splits option.splits)

lemma client_get_store:
  "snd (client_get k s) = (snd (next_fault s))\<lparr>calls := calls s @ [GetCall k (fst (next_fault s))]\<rparr>"
  using next_fault_fields(2) [of s]
  by (auto simp add: client_get_def split: prod.splits option.splits)

lemma client_update_error: "fst (client_update k u s) = fst (next_fault s)"
  by (simp add: client_update_def split: prod.splits option.splits)

lemma client_update_store:
  "snd (client_update k u s) =
     (if fst (next_fault s) = None
      then (snd (next_fault s))\<lparr>users := replace_user k u (users s),
                                  calls := calls s @ [UpdateCall k u None]\<rparr>
      else (snd (next_fault s))\<lparr>calls := calls s @ [UpdateCall k u (fst (next_fault s))]\<rparr>)"
  using next_fault_fields(1,2) [of s]
  by (auto simp add: client_update_def split: prod.splits option.splits)

lemma client_update_calls:
  "calls (snd (client_update k u s)) = calls s @ [UpdateCall k u (fst (next_fault s))]"
  by (simp add: client_update_store)

lemma client_get_calls:
  "calls (snd (client_get k s)) = calls s @ [GetCall k (fst (next_fault s))]"
  by (simp add: client_get_store)

lemma read_error: "fst (resourceSecurityUserRoleRead d m) = fst (next_fault m)"
  using client_get_error [of "rid d" m]
  by (auto simp add: resourceSecurityUserRoleRead_def split: prod.splits option.splits)

lemma read_store: "snd (snd (resourceSecurityUserRoleRead d m)) = snd (client_get (rid d) m)"
  by (auto simp add: resourceSecurityUserRoleRead_def split: prod.splits option.splits)

lemma read_data:
  "fst (snd (resourceSecurityUserRoleRead d m)) =
     (if fst (next_fault m) \<noteq> None then d
      else case map_of (users m) (rid d) of
             None \<Rightarrow> d\<lparr>rid := ''''\<rparr>
           | Some u \<Rightarrow> set_from_user u d)"
  using client_get_error [of "rid d" m] client_get_user [of "rid d" m]
  by (auto simp add: resourceSecurityUserRoleRead_def split: prod.splits option.splits)

lemma user_read_error: "fst (resourceSecurityUserRead d m) = fst (next_fault m)"
  using client_get_error [of "rid d" m]
  by (auto simp add: resourceSecurityUserRead_def split: prod.splits option.splits)

lemma user_read_store: "snd (snd (resourceSecurityUserRead d m)) = snd (client_get (rid d) m)"
  by (auto simp add: resourceSecurityUserRead_def split: prod.splits option.splits)

lemma user_read_data:
  "fst (snd (resourceSecurityUserRead d m)) =
     (if fst (next_fault m) \<noteq> None then d
      else case map_of (users m) (rid d) of
             None \<Rightarrow> d\<lparr>rid := ''''\<rparr>
           | Some u \<Rightarrow> set_from_user u d)"
  using client_get_error [of "rid d" m] client_get_user [of "rid d" m]
  by (auto simp add: resourceSecurityUserRead_def split: prod.splits option.splits)

text \<open>Every hook hands back the error of the last call it made.\<close>

lemma read_last_call:
  "calls (snd (snd (resourceSecurityUserRoleRead d m)))
     = calls m @ [GetCall (rid d) (fst (resourceSecurityUserRoleRead d m))]"
  by (simp add: read_store read_error client_get_calls)

lemma user_read_last_call:
  "calls (snd (snd (resourceSecurityUserRead d m)))
     = calls m @ [GetCall (rid d) (fst (resourceSecurityUserRead d m))]"
  by (simp add: user_read_store user_read_error client_get_calls)

lemma update_unfold:
  "resourceSecurityUserRoleUpdate d m =
     (if roles_changed d then
        (if fst (next_fault m) \<noteq> None
         then (fst (next_fault m), d,
               snd (client_update (rid d) (getSecurityUserRoleFromResourceData d) m))
         else resourceSecurityUserRoleRead d
               (snd (client_update (rid d) (getSecurityUserRoleFromResourceData d) m)))
      else resourceSecurityUserRoleRead d m)"
  using client_update_error [of "rid d" "getSecurityUserRoleFromResourceData d" m]
  by (auto simp add: resourceSecurityUserRoleUpdate_def Let_def split: prod.splits)

lemma update_last_call:
  "calls (snd (snd (resourceSecurityUserRoleUpdate d m))) \<noteq> [] \<and>
   call_error (last (calls (snd (snd (resourceSecurityUserRoleUpdate d m)))))
     = fst (resourceSecurityUserRoleUpdate d m)"
  by (simp add: update_unfold read_last_call client_update_calls)

lemma update_failed_data:
  "fst (resourceSecurityUserRoleUpdate d m) \<noteq> None
     \<Longrightarrow> fst (snd (resourceSecurityUserRoleUpdate d m)) = d"
  by (auto simp add: update_unfold read_error read_data split: if_splits)

lemma create_unfold:
  "resourceSecurityUserRoleCreate d m =
     (let d0 = d\<lparr>rid := userid d\<rparr>;
          d1 = fst (snd (resourceSecurityUserRoleRead d0 m));
          m1 = snd (client_get (userid d) m);
          usr = getSecurityUserRoleFromResourceData d1
      in if fst (next_fault m) \<noteq> None then (fst (next_fault m), d0, m1)
         else if fst (next_fault m1) \<noteq> None
              then (fst (next_fault m1), d1, snd (client_update (rid d1) usr m1))
              else resourceSecurityUserRead (d1\<lparr>rid := UserID usr\<rparr>)
                     (snd (client_update (rid d1) usr m1)))"
proof -
  obtain err d1 m1 where r: "resourceSecurityUserRoleRead (d\<lparr>rid := userid d\<rparr>) m = (err, d1, m1)"
    by (cases "resourceSecurityUserRoleRead (d\<lparr>rid := userid d\<rparr>) m") auto
  have e: "err = fst (next_fault m)" using read_error [of "d\<lparr>rid := userid d\<rparr>" m] r by simp
  have s: "m1 = snd (client_get (userid d) m)"
    using read_store [of "d\<lparr>rid := userid d\<rparr>" m] r by simp
  have dd: "err \<noteq> None \<Longrightarrow> d1 = d\<lparr>rid := userid d\<rparr>"
    using read_data [of "d\<lparr>rid := userid d\<rparr>" m] r e by simp
  obtain err2 m2 where u: "client_update (rid d1) (getSecurityUserRoleFromResourceData d1) m1 = (err2, m2)"
    by (cases "client_update (rid d1) (getSecurityUserRoleFromResourceData d1) m1") auto
  have e2: "err2 = fst (next_fault m1)"
    using client_update_error [of "rid d1" "getSecurityUserRoleFromResourceData d1" m1] u by simp
  show ?thesis
    using dd by (simp add: resourceSecurityUserRoleCreate_def Let_def r u e [symmetric] s [symmetric] e2 [symmetric])
qed

lemma create_last_call:
  "calls (snd (snd (resourceSecurityUserRoleCreate d m))) \<noteq> [] \<and>
   call_error (last (calls (snd (snd (resourceSecurityUserRoleCreate d m)))))
     = fst (resourceSecurityUserRoleCreate d m)"
  by (simp add: create_unfold Let_def user_read_last_call client_update_calls client_get_calls)

lemma delete_unfold:
  "resourceSecurityUserRoleDelete d m =
     (if fst (next_fault m) \<noteq> None then Return (fst (next_fault m), d, snd (client_get (rid d) m))
      else case map_of (users m) (rid d) of
             None \<Rightarrow> Panic
           | Some au \<Rightarrow>
               (let d1 = d\<lparr>roles := remdups (computeRemainderAfterRemoval (roles d) (Roles au))\<rparr>;
                    r = resourceSecurityUserRoleUpdate d1 (snd (client_get (rid d) m))
                in if fst r \<noteq> None then Return r
                   else Return (None, (fst (snd r))\<lparr>rid := ''''\<rparr>, snd (snd r))))"
proof -
  obtain usr err m1 where g: "client_get (rid d) m = ((usr, err), m1)"
    by (cases "client_get (rid d) m") auto
  have e: "fst (next_fault m) = err" using client_get_error [of "rid d" m] g by simp
  have u: "usr = (if err = None then map_of (users m) (rid d) else None)"
    using client_get_user [of "rid d" m] g e by simp
  show ?thesis
  proof (cases err)
    case (Some x)
    then show ?thesis by (simp add: resourceSecurityUserRoleDelete_def g e)
  next
    case None
    then show ?thesis
      using u
      by (simp add: resourceSecurityUserRoleDelete_def g e Let_def
            getSecurityUserRoleFromResourceData_def
          split: prod.splits option.splits)
  qed
qed

lemma delete_not_found_panics:
  "fst (client_get (rid d) m) = (None, None) \<Longrightarrow> resourceSecurityUserRoleDelete d m = Panic"
  by (cases "client_get (rid d) m") (auto simp add: resourceSecurityUserRoleDelete_def Let_def)


lemma update_result:
  assumes "resourceSecurityUserRoleUpdate d m = (err, d', m')"
  shows "call_error (last (calls m')) = err" and "err \<noteq> None \<Longrightarrow> d' = d"
  using assms update_last_call [of d m] update_failed_data [of d m] by simp_all

section \<open>The set difference\<close>

text \<open>
  C1. For every desired set \<open>D\<close> and remote collection \<open>R\<close>, the set-difference block of
  the delete hook returns exactly \<open>R\<close> minus the members of \<open>D\<close>: the members of the
  result are those of \<open>R\<close> that are not in \<open>D\<close>, and the members that stay pass through
  unchanged, in the order and number in which the remote lists them.
\<close>

theorem remainder_is_set_difference:
  "set (computeRemainderAfterRemoval D R) = set R - set D
   \<and> computeRemainderAfterRemoval D R = filter (\<lambda>r. r \<notin> set D) R"
  by (auto simp add: computeRemainderAfterRemoval_filter)

text \<open>
  C8. Removing the same desired set \<open>D\<close> a second time changes nothing:
  the remainder of the remainder is the remainder.
\<close>

theorem remainder_idempotent:
  "computeRemainderAfterRemoval D (computeRemainderAfterRemoval D R)
     = computeRemainderAfterRemoval D R"
  by (simp add: computeRemainderAfterRemoval_filter)

section \<open>The existence check\<close>



text \<open>
  C9. On two sets of roles (lists without duplicates) the comparison of the existence
  check is symmetric: exchanging desired and remote does not change the answer.
\<close>

theorem existence_symmetric:
  "distinct A \<Longrightarrow> distinct B \<Longrightarrow> computeExistence A B = computeExistence B A"
  by (auto simp add: computeExistence_distinct)

theorem existence_symmetric_witness:
  "distinct [''admin'', ''dev''] \<and> distinct [''dev'', ''admin'']
   \<and> computeExistence [''admin'', ''dev''] [''dev'', ''admin'']
   \<and> computeExistence [''dev'', ''admin''] [''admin'', ''dev'']
   \<and> distinct [''admin''] \<and> distinct [''admin'', ''dev'']
   \<and> computeExistence [''admin''] [''admin'', ''dev''] = False
   \<and> computeExistence [''admin'', ''dev''] [''admin''] = False"
proof -
  have a: "distinct [''admin'', ''dev'']" and b: "distinct [''dev'', ''admin'']"
    and c: "distinct [''admin'']" by simp_all
  have t: "computeExistence [''admin'', ''dev''] [''dev'', ''admin'']"
    by (simp add: computeExistence_def)
  have f: "computeExistence [''admin''] [''admin'', ''dev''] = False"
    by (simp add: computeExistence_def)
  show ?thesis
    using a b c t f existence_symmetric [OF a b] existence_symmetric [OF c a] by simp
qed

text \<open>
  C6. For every desired set, the empty one included, when the fetch of the existence
  check answers not-found (nil user, nil error), the check returns \<open>False\<close> and no
  error.
\<close>

theorem exists_not_found:
  "fst (client_get (rid d) m) = (None, None)
     \<Longrightarrow> fst (resourceSecurityUserRoleExists d m) = (False, None)"
  by (cases "client_get (rid d) m") (auto simp add: resourceSecurityUserRoleExists_def)

theorem exists_not_found_witness:
  "fst (client_get (rid (jane_data [] False)) (empty_store [])) = (None, None)
   \<and> fst (resourceSecurityUserRoleExists (jane_data [] False) (empty_store [])) = (False, None)
   \<and> fst (client_get (rid (jane_data [''dev''] False)) (empty_store [])) = (None, None)
   \<and> fst (resourceSecurityUserRoleExists (jane_data [''dev''] False) (empty_store []))
        = (False, None)"
proof -
  have a: "fst (client_get (rid (jane_data [] False)) (empty_store [])) = (None, None)"
    by (simp add: example_defs client_get_def next_fault_def)
  have b: "fst (client_get (rid (jane_data [''dev''] False)) (empty_store [])) = (None, None)"
    by (simp add: example_defs client_get_def next_fault_def)
  show ?thesis
    using a b exists_not_found [OF a] exists_not_found [OF b] by simp
qed

text \<open>
  C10. Whenever the fetch inside the existence check fails with an error, the check
  returns \<open>False\<close> together with that same error, and it never returns \<open>True\<close> together
  with an error. The boolean alone is therefore the same for a failed fetch and for a
  user that is not there, as the closed instance shows on both.
\<close>

theorem exists_error_is_false:
  "(snd (fst (client_get (rid d) m)) = Some e
      \<longrightarrow> fst (resourceSecurityUserRoleExists d m) = (False, Some e))
   \<and> (fst (fst (resourceSecurityUserRoleExists d m))
      \<longrightarrow> snd (fst (resourceSecurityUserRoleExists d m)) = None)"
  by (cases "client_get (rid d) m")
     (auto simp add: resourceSecurityUserRoleExists_def Let_def split: option.splits)

theorem exists_error_is_false_witness:
  "snd (fst (client_get (rid (jane_data [''admin'', ''dev''] False))
              (jane_store [Some (StoreError ''timeout'')]))) = Some (StoreError ''timeout'')
   \<and> fst (resourceSecurityUserRoleExists (jane_data [''admin'', ''dev''] False)
            (jane_store [Some (StoreError ''timeout'')])) = (False, Some (StoreError ''timeout''))
   \<and> fst (fst (resourceSecurityUserRoleExists (jane_data [''admin'', ''dev''] False)
                 (jane_store [])))
   \<and> snd (fst (resourceSecurityUserRoleExists (jane_data [''admin'', ''dev''] False)
                 (jane_store []))) = None
   \<and> fst (fst (resourceSecurityUserRoleExists (jane_data [''admin'', ''dev''] False)
                 (empty_store []))) = False"
proof -
  have a: "snd (fst (client_get (rid (jane_data [''admin'', ''dev''] False))
              (jane_store [Some (StoreError ''timeout'')]))) = Some (StoreError ''timeout'')"
    by (simp add: example_defs client_get_def next_fault_def)
  have b: "fst (fst (resourceSecurityUserRoleExists (jane_data [''admin'', ''dev''] False)
                 (jane_store [])))"
    by (simp add: example_defs hook_defs computeExistence_def Let_def)
  have c: "fst (fst (resourceSecurityUserRoleExists (jane_data [''admin'', ''dev''] False)
                 (empty_store []))) = False"
    by (simp add: example_defs hook_defs)
  show ?thesis
    using a b c
      exists_error_is_false [of "jane_data [''admin'', ''dev''] False"
        "jane_store [Some (StoreError ''timeout'')]" "StoreError ''timeout''"]
      exists_error_is_false [of "jane_data [''admin'', ''dev''] False" "jane_store []" "StoreError ''timeout''"]
    by simp
qed

section \<open>The update hook\<close>

text \<open>
  C3 (as amended). For every update invocation in which the desired subset changed, the
  first call of the update hook is the write: it replaces the user under the resource id
  by the user built from the resource data, whose roles are exactly the new desired
  subset. The store is not read before that write; it is read once afterwards, and only
  when the write succeeded.
\<close>

theorem update_writes_desired_then_reads:
  "roles_changed d \<Longrightarrow>
     calls (snd (snd (resourceSecurityUserRoleUpdate d m))) =
       calls m
       @ UpdateCall (rid d) (getSecurityUserRoleFromResourceData d) (fst (next_fault m))
       # (if fst (next_fault m) = None
          then [GetCall (rid d) (fst (next_fault (snd (next_fault m))))]
          else [])
     \<and> Roles (getSecurityUserRoleFromResourceData d) = roles d"
  by (simp add: update_unfold read_last_call client_update_calls read_error
        client_update_store next_fault_def getSecurityUserRoleFromResourceData_def
      split: list.splits)

theorem update_writes_desired_then_reads_witness:
  "roles_changed (jane_data [''dev'', ''qa''] True)
   \<and> calls (snd (snd (resourceSecurityUserRoleUpdate (jane_data [''dev'', ''qa''] True)
                        (jane_store [])))) =
       [UpdateCall ''jane'' (jane\<lparr>Roles := [''dev'', ''qa'']\<rparr>) None, GetCall ''jane'' None]"
  using update_writes_desired_then_reads [of "jane_data [''dev'', ''qa''] True" "jane_store []"]
  by (simp add: example_defs next_fault_def getSecurityUserRoleFromResourceData_def)

text \<open>
  C3 as stated fails: with \<^verbatim>\<open>admin\<close> and \<^verbatim>\<open>dev\<close> on the remote user and the desired
  subset changed to \<^verbatim>\<open>dev\<close> and \<^verbatim>\<open>qa\<close>, the first call is the write, not a read, and
  the stored roles afterwards are \<^verbatim>\<open>dev\<close> and \<^verbatim>\<open>qa\<close>: the foreign member
  \<^verbatim>\<open>admin\<close> is gone.
\<close>

theorem update_clobbers_foreign_counterexample:
  "roles_changed (jane_data [''dev'', ''qa''] True)
   \<and> map_of (users (jane_store [])) ''jane'' = Some jane
   \<and> ''admin'' \<in> set (Roles jane)
   \<and> resourceSecurityUserRoleUpdate (jane_data [''dev'', ''qa''] True) (jane_store []) =
       (None, jane_data [''dev'', ''qa''] True,
        \<lparr> users = [(''jane'', jane\<lparr>Roles := [''dev'', ''qa'']\<rparr>)], faults = [],
          calls = [UpdateCall ''jane'' (jane\<lparr>Roles := [''dev'', ''qa'']\<rparr>) None,
                   GetCall ''jane'' None] \<rparr>)"
  by (simp add: example_defs hook_defs Let_def)

section \<open>The delete hook\<close>

text \<open>
  C5. The claim: when the fetch of the delete hook answers not-found, nothing is written
  and the hook returns without an error. The code: the nil user is dereferenced at line
  179 and the hook panics, whatever the desired subset is.
\<close>

theorem delete_panics_on_not_found:
  "fst (client_get (rid (jane_data [''dev''] False)) (empty_store [])) = (None, None)
   \<and> resourceSecurityUserRoleDelete (jane_data [''dev''] False) (empty_store []) = Panic
   \<and> resourceSecurityUserRoleDelete (jane_data [''dev''] True) (empty_store []) = Panic"
  by (simp add: example_defs hook_defs Let_def)

section \<open>The create hook\<close>




section \<open>Failing hooks\<close>

text \<open>
  C7 (as amended). A failed update, create or delete returns the error of the last call
  it made to the store, unchanged, and makes no call after it. A failed update hands the
  resource data back unchanged. A failed delete hands the resource data back unchanged
  when its first fetch failed; when it fails later, the roles of the resource data have
  already been replaced by the remainder computed from the fetch (line 186 comes before
  the write).
\<close>

theorem failed_hooks_hand_on_store_error:
  "(fst (resourceSecurityUserRoleUpdate du mu) \<noteq> None \<longrightarrow>
      fst (snd (resourceSecurityUserRoleUpdate du mu)) = du
      \<and> call_error (last (calls (snd (snd (resourceSecurityUserRoleUpdate du mu)))))
          = fst (resourceSecurityUserRoleUpdate du mu))
   \<and> (fst (resourceSecurityUserRoleCreate dc mc) \<noteq> None \<longrightarrow>
      call_error (last (calls (snd (snd (resourceSecurityUserRoleCreate dc mc)))))
          = fst (resourceSecurityUserRoleCreate dc mc))
   \<and> (resourceSecurityUserRoleDelete dd md = Return (Some e, d', m') \<longrightarrow>
      call_error (last (calls m')) = Some e
      \<and> d' = (if snd (fst (client_get (rid dd) md)) \<noteq> None then dd
              else case fst (fst (client_get (rid dd) md)) of
                     None \<Rightarrow> dd
                   | Some au \<Rightarrow>
                       dd\<lparr>roles := remdups (computeRemainderAfterRemoval (roles dd) (Roles au))\<rparr>))"
proof (intro conjI impI)
  assume "fst (resourceSecurityUserRoleUpdate du mu) \<noteq> None"
  then show "fst (snd (resourceSecurityUserRoleUpdate du mu)) = du"
    by (rule update_failed_data)
next
  show "call_error (last (calls (snd (snd (resourceSecurityUserRoleUpdate du mu)))))
          = fst (resourceSecurityUserRoleUpdate du mu)"
    using update_last_call [of du mu] by simp
next
  show "call_error (last (calls (snd (snd (resourceSecurityUserRoleCreate dc mc)))))
          = fst (resourceSecurityUserRoleCreate dc mc)"
    using create_last_call [of dc mc] by simp
next
  assume r: "resourceSecurityUserRoleDelete dd md = Return (Some e, d', m')"
  show "call_error (last (calls m')) = Some e"
    using r
    by (auto simp add: delete_unfold client_get_calls Let_def
          split: if_splits option.splits dest: update_result(1))
next
  assume r: "resourceSecurityUserRoleDelete dd md = Return (Some e, d', m')"
  show "d' = (if snd (fst (client_get (rid dd) md)) \<noteq> None then dd
              else case fst (fst (client_get (rid dd) md)) of
                     None \<Rightarrow> dd
                   | Some au \<Rightarrow>
                       dd\<lparr>roles := remdups (computeRemainderAfterRemoval (roles dd) (Roles au))\<rparr>)"
    using r
    by (auto simp add: delete_unfold client_get_error client_get_user Let_def
          split: if_splits option.splits dest: update_result(2))
qed

theorem failed_hooks_hand_on_store_error_witness:
  "resourceSecurityUserRoleUpdate (jane_data [''dev'', ''qa''] True)
       (jane_store [Some (StoreError ''timeout'')])
     = (Some (StoreError ''timeout''), jane_data [''dev'', ''qa''] True,
        \<lparr> users = [(''jane'', jane)], faults = [],
          calls = [UpdateCall ''jane'' (jane\<lparr>Roles := [''dev'', ''qa'']\<rparr>)
                     (Some (StoreError ''timeout''))] \<rparr>)
   \<and> fst (resourceSecurityUserRoleCreate ((jane_data [''qa''] True)\<lparr>rid := ''''\<rparr>)
            (jane_store [Some (StoreError ''timeout'')])) = Some (StoreError ''timeout'')
   \<and> call_error (last (calls (snd (snd
        (resourceSecurityUserRoleCreate ((jane_data [''qa''] True)\<lparr>rid := ''''\<rparr>)
            (jane_store [Some (StoreError ''timeout'')]))))))
        = Some (StoreError ''timeout'')
   \<and> resourceSecurityUserRoleDelete (jane_data [''dev''] True)
        (jane_store [None, Some (StoreError ''timeout'')])
     = Return (Some (StoreError ''timeout''), jane_data [''admin''] True,
         \<lparr> users = [(''jane'', jane)], faults = [],
           calls = [GetCall ''jane'' None,
                    UpdateCall ''jane'' (jane\<lparr>Roles := [''admin'']\<rparr>)
                      (Some (StoreError ''timeout''))] \<rparr>)"
  using failed_hooks_hand_on_store_error
    [of "jane_data [''dev'', ''qa''] True" "jane_store [Some (StoreError ''timeout'')]"
        "(jane_data [''qa''] True)\<lparr>rid := ''''\<rparr>" "jane_store [Some (StoreError ''timeout'')]"
        "jane_data [''dev''] True" "jane_store [None, Some (StoreError ''timeout'')]"
        "StoreError ''timeout''" "jane_data [''admin''] True"
        "\<lparr> users = [(''jane'', jane)], faults = [],
           calls = [GetCall ''jane'' None,
                    UpdateCall ''jane'' (jane\<lparr>Roles := [''admin'']\<rparr>)
                      (Some (StoreError ''timeout''))] \<rparr>"]
  by (simp add: example_defs hook_defs Let_def computeRemainderAfterRemoval_def)

text \<open>
  C7 as stated fails: a delete whose second call to the store fails (the write when the
  roles count as changed, the closing read otherwise) returns the error with the local
  roles changed from \<^verbatim>\<open>dev\<close> to \<^verbatim>\<open>admin\<close>.
\<close>

theorem failed_delete_changes_roles_counterexample:
  "resourceSecurityUserRoleDelete (jane_data [''dev''] True)
       (jane_store [None, Some (StoreError ''timeout'')])
     = Return (Some (StoreError ''timeout''), jane_data [''admin''] True,
         \<lparr> users = [(''jane'', jane)], faults = [],
           calls = [GetCall ''jane'' None,
                    UpdateCall ''jane'' (jane\<lparr>Roles := [''admin'']\<rparr>)
                      (Some (StoreError ''timeout''))] \<rparr>)
   \<and> resourceSecurityUserRoleDelete (jane_data [''dev''] False)
       (jane_store [None, Some (StoreError ''timeout'')])
     = Return (Some (StoreError ''timeout''), jane_data [''admin''] False,
         \<lparr> users = [(''jane'', jane)], faults = [],
           calls = [GetCall ''jane'' None,
                    GetCall ''jane'' (Some (StoreError ''timeout''))] \<rparr>)
   \<and> roles (jane_data [''admin''] True) \<noteq> roles (jane_data [''dev''] True)
   \<and> roles (jane_data [''admin''] False) \<noteq> roles (jane_data [''dev''] False)"
  by (simp add: example_defs hook_defs Let_def computeRemainderAfterRemoval_def)

end
